theory Spec2Isabelle
  imports Complex_Main
begin

section \<open>The FollowJointTrajectory controller of ubr\_controllers\<close>

text \<open>
  A shallow embedding of \<^verbatim>\<open>ubr_controllers/src/follow_joint_trajectory.cpp\<close>.
  The member variables of the controller are the fields of the record \<open>controller\<close>
  (the trailing underscore of the C++ names is dropped); every member function takes
  the controller and returns the updated one. 
\<close>

subsection \<open>Doubles\<close>

text \<open>A C++ \<^verbatim>\<open>double\<close> is a finite number, an infinity or NaN; \<open>Num r\<close> is the
  finite double of value \<open>r\<close> (the sign of a zero is not kept: the code never divides).
  The comparisons of the source and \<^verbatim>\<open>fabs\<close> are defined here: every comparison with
  NaN is false. Which reals are doubles, and how a sum, a difference or a decimal
  literal is rounded, is not defined here: the two operations and the literals are
  parameters of the model (see \<open>env\<close> below).\<close>

datatype double = Num real | PosInf | NegInf | NaN

text \<open>\<^verbatim>\<open>a < b\<close> and \<^verbatim>\<open>a <= b\<close>; the source writes \<^verbatim>\<open>b > a\<close> and \<^verbatim>\<open>b >= a\<close>.\<close>

fun dless :: "double \<Rightarrow> double \<Rightarrow> bool" where
  "dless (Num a) (Num b) = (a < b)"
| "dless (Num a) PosInf = True"
| "dless NegInf (Num b) = True"
| "dless NegInf PosInf = True"
| "dless a b = False"

fun dle :: "double \<Rightarrow> double \<Rightarrow> bool" where
  "dle (Num a) (Num b) = (a \<le> b)"
| "dle NaN b = False"
| "dle a NaN = False"
| "dle NegInf b = True"
| "dle a PosInf = True"
| "dle a b = False"

fun fabs :: "double \<Rightarrow> double" where
  "fabs (Num a) = Num \<bar>a\<bar>"
| "fabs PosInf = PosInf"
| "fabs NegInf = PosInf"
| "fabs NaN = NaN"

subsection \<open>Messages\<close>

text \<open>\<^verbatim>\<open>control_msgs::FollowJointTrajectoryResult::error_code\<close>, the values that the
  source uses. A default-constructed result carries the code 0, which is
  \<open>SUCCESSFUL\<close>.\<close>

datatype error_code =
  SUCCESSFUL | INVALID_JOINTS | PATH_TOLERANCE_VIOLATED | GOAL_TOLERANCE_VIOLATED

text \<open>\<^verbatim>\<open>trajectory_msgs::JointTrajectoryPoint\<close>; the feedback message uses the same
  type for its desired, actual and error parts.\<close>

record JointTrajectoryPoint =
  positions :: "double list"
  velocities :: "double list"
  accelerations :: "double list"
  effort :: "double list"
  time_from_start :: double

record JointTrajectory =
  traj_joint_names :: "string list"
  traj_points :: "JointTrajectoryPoint list"

record JointTolerance =
  name :: string
  position :: double
  velocity :: double
  acceleration :: double

record Goal =
  g_trajectory :: JointTrajectory
  g_path_tolerance :: "JointTolerance list"
  g_goal_tolerance :: "JointTolerance list"
  g_goal_time_tolerance :: double

record Feedback =
  stamp :: double
  fb_joint_names :: "string list"
  desired :: JointTrajectoryPoint
  actual :: JointTrajectoryPoint
  error :: JointTrajectoryPoint

subsection \<open>Engine data\<close>

record TrajectoryPoint =
  q :: "double list"
  qd :: "double list"
  qdd :: "double list"
  time :: double

text \<open>The struct \<^verbatim>\<open>Trajectory\<close> has the single member \<^verbatim>\<open>points\<close>;
  \<^verbatim>\<open>size()\<close> is the length of that vector.\<close>

type_synonym Trajectory = "TrajectoryPoint list"

text \<open>A joint handle: its name, the three readings, and every command written to it,
  oldest first (\<^verbatim>\<open>setPositionCommand(position, velocity, effort)\<close>).\<close>

record JointHandle =
  getName :: string
  getPosition :: double
  getVelocity :: double
  getEffort :: double
  commands :: "(double \<times> double \<times> double) list"

definition setPositionCommand ::
  "double \<Rightarrow> double \<Rightarrow> double \<Rightarrow> JointHandle \<Rightarrow> JointHandle" where
  "setPositionCommand p v e j = j\<lparr>commands := commands j @ [(p, v, e)]\<rparr>"

subsection \<open>The action server and the controller manager\<close>

datatype terminal = Succeeded | Aborted | Preempted

type_synonym outcome = "terminal \<times> error_code \<times> string"

text \<open>The state of the \<^verbatim>\<open>SimpleActionServer\<close>: whether a goal is active, whether a
  preempt was requested, every terminal call the controller made (\<open>calls\<close>, in
  order), the outcomes that reached the client (\<open>reported\<close>) and the feedback
  messages published.\<close>

record server_t =
  isActive :: bool
  isPreemptRequested :: bool
  calls :: "outcome list"
  reported :: "outcome list"
  published :: "Feedback list"

text \<open>Modelled from the spec: the action server is a library class, absent from the
  sources. The spec says of its result channel that both threads may call
  setSucceeded/setAborted and that the first wins. So a terminal call on an active
  goal reports its outcome and ends the goal; a terminal call on a goal that is
  no longer active is recorded in \<open>calls\<close> and reports nothing.\<close>

definition terminal_call :: "outcome \<Rightarrow> server_t \<Rightarrow> server_t" where
  "terminal_call out srv =
     srv\<lparr>calls := calls srv @ [out],
         reported := (if isActive srv then reported srv @ [out] else reported srv),
         isActive := False\<rparr>"

definition new_server :: server_t where
  "new_server = \<lparr>isActive = False, isPreemptRequested = False, calls = [],
                  reported = [], published = []\<rparr>"

datatype manager_call = requestStart string | requestStop string

subsection \<open>The controller\<close>

record controller =
  initialized :: bool
  ctrl_name :: string
  joint_names :: "string list"
  joints :: "JointHandle list"
  stop_with_action :: bool
  sampler :: "Trajectory option"
  preempted :: bool
  has_path_tolerance :: bool
  last_sample :: TrajectoryPoint
  path_tolerance :: TrajectoryPoint
  goal_tolerance :: TrajectoryPoint
  goal_time_tolerance :: double
  feedback :: Feedback
  server :: server_t
  manager_calls :: "manager_call list"
  ros_errors :: "string list"

text \<open>What the controller calls but does not define: the spline sampler, the angle
  library, the two trajectory helpers, the manager's answer to a start request and the
  wall clock (\<^verbatim>\<open>ros::Time::now()\<close>); and the arithmetic of doubles: the rounded
  sum \<open>fadd\<close>, the rounded difference \<open>fsub\<close> and the double \<open>literal r\<close> that a
  decimal literal of value \<open>r\<close> denotes. They are parameters of the model. On each
  path through the goal handler before its wait loop the clock is read once.\<close>

record env =
  sample :: "Trajectory \<Rightarrow> double \<Rightarrow> TrajectoryPoint"
  shortest_angular_distance :: "double \<Rightarrow> double \<Rightarrow> double"
  fadd :: "double \<Rightarrow> double \<Rightarrow> double"
  fsub :: "double \<Rightarrow> double \<Rightarrow> double"
  literal :: "real \<Rightarrow> double"
  trajectoryFromMsg :: "JointTrajectory \<Rightarrow> string list \<Rightarrow> Trajectory option"
  spliceTrajectories :: "Trajectory \<Rightarrow> Trajectory \<Rightarrow> double \<Rightarrow> Trajectory option"
  start_granted :: "string \<Rightarrow> bool"
  time_now :: double

text \<open>Modelled from the spec: \<^verbatim>\<open>end_time()\<close> of the sampler (absent from the
  sources) returns the time of the last point of its trajectory.\<close>

definition end_time :: "Trajectory \<Rightarrow> double" where
  "end_time t = time (last t)"

text \<open>\<^verbatim>\<open>std::vector<double>::resize(n)\<close>: keeps the first \<open>n\<close> elements and pads with
  zeros.\<close>

definition resize :: "nat \<Rightarrow> double list \<Rightarrow> double list" where
  "resize n xs = take n xs @ replicate (n - length xs) (Num 0)"

definition setAborted :: "error_code \<Rightarrow> string \<Rightarrow> controller \<Rightarrow> controller" where
  "setAborted code text s = s\<lparr>server := terminal_call (Aborted, code, text) (server s)\<rparr>"

definition setSucceeded :: "error_code \<Rightarrow> string \<Rightarrow> controller \<Rightarrow> controller" where
  "setSucceeded code text s = s\<lparr>server := terminal_call (Succeeded, code, text) (server s)\<rparr>"

definition setPreempted :: "error_code \<Rightarrow> string \<Rightarrow> controller \<Rightarrow> controller" where
  "setPreempted code text s = s\<lparr>server := terminal_call (Preempted, code, text) (server s)\<rparr>"

definition ROS_ERROR :: "string \<Rightarrow> controller \<Rightarrow> controller" where
  "ROS_ERROR text s = s\<lparr>ros_errors := ros_errors s @ [text]\<rparr>"

subsection \<open>getPointFromCurrent\<close>

text \<open>Each \<^verbatim>\<open>for (size_t j = 0; j < joints_.size(); ++j)\<close> is a fold over the indices
  \<open>[0..<length (joints s)]\<close>; an assignment \<^verbatim>\<open>v[j] = x\<close> is a list update.\<close>

definition getPointFromCurrent ::
  "env \<Rightarrow> bool \<Rightarrow> bool \<Rightarrow> bool \<Rightarrow> controller \<Rightarrow> TrajectoryPoint" where
  "getPointFromCurrent e incl_vel incl_acc zero_vel s =
     (let n = length (joints s);
          point0 = \<lparr>q = [], qd = [], qdd = [], time = Num 0\<rparr>;
          point1 = fold (\<lambda>j p. p\<lparr>q := (q p)[j := getPosition (joints s ! j)]\<rparr>) [0..<n]
                     (point0\<lparr>q := resize n (q point0)\<rparr>);
          point2 =
            (if incl_vel \<and> zero_vel then
               fold (\<lambda>j p. p\<lparr>qd := (qd p)[j := Num 0]\<rparr>) [0..<n]
                 (point1\<lparr>qd := resize n (qd point1)\<rparr>)
             else if incl_vel then
               fold (\<lambda>j p. p\<lparr>qd := (qd p)[j := getVelocity (joints s ! j)]\<rparr>) [0..<n]
                 (point1\<lparr>qd := resize n (qd point1)\<rparr>)
             else point1);
          point3 =
            (if incl_acc then
               fold (\<lambda>j p. p\<lparr>qdd := (qdd p)[j := Num 0]\<rparr>) [0..<n]
                 (point2\<lparr>qdd := resize n (qdd point2)\<rparr>)
             else point2)
      in point3\<lparr>time := time_now e\<rparr>)"

subsection \<open>update\<close>

text \<open>Lines 184--208: the desired part of the feedback, from the sample \<open>p\<close>.
  Velocities are copied only when the sample has one per joint, accelerations only when
  it has both.\<close>

definition fill_desired :: "nat \<Rightarrow> TrajectoryPoint \<Rightarrow> Feedback \<Rightarrow> Feedback" where
  "fill_desired n p fb =
     (let fb1 = fold (\<lambda>i f. f\<lparr>desired := (desired f)\<lparr>positions :=
                   (positions (desired f))[i := q p ! i]\<rparr>\<rparr>) [0..<n] fb
      in if length (qd p) = n then
           (let fb2 = fold (\<lambda>i f. f\<lparr>desired := (desired f)\<lparr>velocities :=
                         (velocities (desired f))[i := qd p ! i]\<rparr>\<rparr>) [0..<n] fb1
            in if length (qdd p) = n then
                 fold (\<lambda>i f. f\<lparr>desired := (desired f)\<lparr>accelerations :=
                    (accelerations (desired f))[i := qdd p ! i]\<rparr>\<rparr>) [0..<n] fb2
               else fb2)
         else fb1)"

text \<open>Lines 210--216: the actual part, read from the joint handles.\<close>

definition fill_actual :: "JointHandle list \<Rightarrow> Feedback \<Rightarrow> Feedback" where
  "fill_actual js fb =
     fold (\<lambda>j f. f\<lparr>actual := (actual f)\<lparr>
              positions := (positions (actual f))[j := getPosition (js ! j)],
              velocities := (velocities (actual f))[j := getVelocity (js ! j)],
              effort := (effort (actual f))[j := getEffort (js ! j)]\<rparr>\<rparr>)
       [0..<length js] fb"

text \<open>Lines 218--225: the error part.\<close>

definition fill_error :: "env \<Rightarrow> nat \<Rightarrow> Feedback \<Rightarrow> Feedback" where
  "fill_error e n fb =
     fold (\<lambda>j f. f\<lparr>error := (error f)\<lparr>
              positions := (positions (error f))[j :=
                 shortest_angular_distance e (positions (desired f) ! j) (positions (actual f) ! j)],
              velocities := (velocities (error f))[j :=
                 fsub e (velocities (actual f) ! j) (velocities (desired f) ! j)]\<rparr>\<rparr>)
       [0..<n] fb"

text \<open>Lines 227--250: the path tolerance check. The body of the loop has two
  independent \<^verbatim>\<open>if\<close> statements and neither leaves the loop.\<close>

definition path_step :: "nat \<Rightarrow> controller \<Rightarrow> controller" where
  "path_step j s =
     (let s1 =
        (if dless (Num 0) (q (path_tolerance s) ! j) \<and>
            dless (q (path_tolerance s) ! j) (fabs (positions (error (feedback s)) ! j))
         then ROS_ERROR ''Trajectory path tolerances violated (position).''
                (setAborted PATH_TOLERANCE_VIOLATED
                   ''Trajectory path tolerances violated (position).'' s)
         else s)
      in
        (if dless (Num 0) (qd (path_tolerance s1) ! j) \<and>
            dless (qd (path_tolerance s1) ! j) (fabs (velocities (error (feedback s1)) ! j))
         then ROS_ERROR ''Trajectory path tolerances violated (velocity).''
                (setAborted PATH_TOLERANCE_VIOLATED
                   ''Trajectory path tolerances violated (velocity).'' s1)
         else s1))"

definition check_path_tolerance :: "controller \<Rightarrow> controller" where
  "check_path_tolerance s =
     (if has_path_tolerance s then fold path_step [0..<length (joints s)] s else s)"

text \<open>Lines 252--279: the goal tolerance check, against the end time of the sampler's
  trajectory \<open>tr\<close>. The deadline is the sum as the doubles give it, from left to
  right.\<close>

definition inside_tolerances :: "controller \<Rightarrow> bool" where
  "inside_tolerances s =
     fold (\<lambda>j inside.
            if dless (Num 0) (q (goal_tolerance s) ! j) \<and>
               dless (q (goal_tolerance s) ! j) (fabs (positions (error (feedback s)) ! j))
            then False else inside)
       [0..<length (joints s)] True"

definition check_goal_tolerance ::
  "env \<Rightarrow> double \<Rightarrow> Trajectory \<Rightarrow> controller \<Rightarrow> controller" where
  "check_goal_tolerance e now tr s =
     (if dle (end_time tr) now then
        (if inside_tolerances s then
           setSucceeded SUCCESSFUL ''Trajectory succeeded.'' s
         else if dless (fadd e (fadd e (end_time tr) (goal_time_tolerance s)) (literal e 0.6)) now
         then
           ROS_ERROR ''Trajectory not executed within time limits''
             (setAborted GOAL_TOLERANCE_VIOLATED
                ''Trajectory not executed within time limits.'' s)
         else s)
      else s)"

text \<open>Lines 281--287 and 293--299: the commands to the joints.\<close>

definition command_joints :: "controller \<Rightarrow> controller" where
  "command_joints s =
     fold (\<lambda>j c. c\<lparr>joints := (joints c)[j :=
              setPositionCommand (positions (desired (feedback c)) ! j)
                (velocities (desired (feedback c)) ! j) (Num 0) (joints c ! j)]\<rparr>)
       [0..<length (joints s)] s"

definition hold_position :: "controller \<Rightarrow> controller" where
  "hold_position s =
     fold (\<lambda>j c. c\<lparr>joints := (joints c)[j :=
              setPositionCommand (q (last_sample c) ! j) (Num 0) (Num 0) (joints c ! j)]\<rparr>)
       [0..<length (joints s)] s"

text \<open>\<^verbatim>\<open>update(now, dt)\<close> returns its boolean and the controller; \<open>dt\<close> is not
  used by the source. When the sample has another size than the joints, control
  leaves the inner \<^verbatim>\<open>if\<close> and reaches the final \<^verbatim>\<open>return false\<close>.\<close>

definition update :: "env \<Rightarrow> double \<Rightarrow> controller \<Rightarrow> bool \<times> controller" where
  "update e now s =
     (if \<not> initialized s then (False, s)
      else if isActive (server s) \<and> sampler s \<noteq> None then
        (let tr = the (sampler s);
             p = sample e tr now;
             s1 = s\<lparr>last_sample := p\<rparr>;
             n = length (joints s1)
         in if length (q p) = n then
              (let s2 = s1\<lparr>feedback :=
                          fill_error e n (fill_actual (joints s1) (fill_desired n p (feedback s1)))\<rparr>;
                   s3 = check_path_tolerance s2;
                   s4 = check_goal_tolerance e now tr s3
               in (True, command_joints s4))
            else (False, s1))
      else if length (q (last_sample s)) = length (joints s) then (True, hold_position s)
      else (False, s))"

subsection \<open>init, start and preempt\<close>

datatype XmlRpcValue = TypeString string | TypeArray "XmlRpcValue list" | TypeOther

text \<open>The node handle as \<^verbatim>\<open>init\<close> reads it: its namespace and the two parameters.
  The manager is the lookup of joint handles; a null pointer is \<open>None\<close>.\<close>

record NodeHandle =
  getNamespace :: string
  param_joints :: "XmlRpcValue option"
  param_stop_with_action :: "bool option"

record ControllerManager =
  getJointHandle :: "string \<Rightarrow> JointHandle option"

fun read_joint_names :: "XmlRpcValue list \<Rightarrow> string list \<Rightarrow> string list \<times> bool" where
  "read_joint_names [] acc = (acc, True)"
| "read_joint_names (TypeString n # vs) acc = read_joint_names vs (acc @ [n])"
| "read_joint_names (v # vs) acc = (acc, False)"

text \<open>Lines 92--98. A handle that the manager does not have is a null pointer, and
  \<^verbatim>\<open>j->getName()\<close> on it has no defined behaviour: the result is \<open>None\<close>.\<close>

fun get_joint_handles ::
  "(string \<Rightarrow> JointHandle option) \<Rightarrow> string list \<Rightarrow> controller \<Rightarrow> controller option" where
  "get_joint_handles g [] s = Some s"
| "get_joint_handles g (n # ns) s =
     (case g n of
        None \<Rightarrow> None
      | Some j \<Rightarrow>
          get_joint_handles g ns
            (s\<lparr>feedback := (feedback s)\<lparr>fb_joint_names := fb_joint_names (feedback s) @ [getName j]\<rparr>,
               joints := joints s @ [j]\<rparr>))"

definition resize_point :: "nat \<Rightarrow> TrajectoryPoint \<Rightarrow> TrajectoryPoint" where
  "resize_point n p = p\<lparr>q := resize n (q p), qd := resize n (qd p), qdd := resize n (qdd p)\<rparr>"

definition resize_feedback :: "nat \<Rightarrow> Feedback \<Rightarrow> Feedback" where
  "resize_feedback n fb =
     fb\<lparr>desired := (desired fb)\<lparr>positions := resize n (positions (desired fb)),
                                 velocities := resize n (velocities (desired fb)),
                                 accelerations := resize n (accelerations (desired fb))\<rparr>,
        actual := (actual fb)\<lparr>positions := resize n (positions (actual fb)),
                               velocities := resize n (velocities (actual fb)),
                               effort := resize n (effort (actual fb))\<rparr>,
        error := (error fb)\<lparr>positions := resize n (positions (error fb)),
                             velocities := resize n (velocities (error fb))\<rparr>\<rparr>"

text \<open>\<^verbatim>\<open>init\<close>. The base class \<^verbatim>\<open>Controller::init\<close> is not among the sources; it is
  taken to record the manager and the name of the controller, which the node handle
  gives. No line of \<^verbatim>\<open>init\<close> assigns \<^verbatim>\<open>has_path_tolerance_\<close>.\<close>

definition init ::
  "NodeHandle \<Rightarrow> ControllerManager option \<Rightarrow> controller \<Rightarrow> (bool \<times> controller) option" where
  "init nh manager s =
     (case manager of
        None \<Rightarrow> Some (False, s\<lparr>initialized := False\<rparr>)
      | Some m \<Rightarrow>
          (let s1 = s\<lparr>ctrl_name := getNamespace nh, sampler := None, preempted := False,
                      joint_names := []\<rparr>
           in case param_joints nh of
                None \<Rightarrow> Some (False, ROS_ERROR (''No joints given for '' @ getNamespace nh) s1)
              | Some (TypeArray vs) \<Rightarrow>
                  (case read_joint_names vs [] of
                     (ns, False) \<Rightarrow>
                       Some (False,
                         ROS_ERROR (''Not all joint names are strings for '' @ getNamespace nh)
                           (s1\<lparr>joint_names := ns\<rparr>))
                   | (ns, True) \<Rightarrow>
                       (case get_joint_handles (getJointHandle m) ns
                               (s1\<lparr>joint_names := ns,
                                   stop_with_action :=
                                     (case param_stop_with_action nh of
                                        None \<Rightarrow> False | Some b \<Rightarrow> b),
                                   joints := []\<rparr>) of
                          None \<Rightarrow> None
                        | Some s2 \<Rightarrow>
                            (let n = length (joints s2)
                             in Some (True,
                                  s2\<lparr>feedback := resize_feedback n (feedback s2),
                                     path_tolerance := resize_point n (path_tolerance s2),
                                     goal_tolerance := resize_point n (goal_tolerance s2),
                                     server := new_server,
                                     initialized := True\<rparr>))))
              | Some v \<Rightarrow>
                  Some (False, ROS_ERROR (''Joints not in a list for '' @ getNamespace nh) s1)))"

definition start :: "controller \<Rightarrow> bool \<times> controller" where
  "start s =
     (if \<not> initialized s then (False, ROS_ERROR ''Unable to start, not initialized.'' s)
      else if \<not> isActive (server s) then
        (False, ROS_ERROR ''Unable to start, action server is not active.'' s)
      else (True, s))"


subsection \<open>executeCb\<close>

text \<open>Lines 336--408: the trajectory to execute. \<open>new_trajectory\<close> is what
  \<^verbatim>\<open>trajectoryFromMsg\<close> produced. Reading \<^verbatim>\<open>new_trajectory.points[0]\<close> of an empty
  trajectory is out of range.\<close>

datatype built = Executable Trajectory | SpliceFailed | OutOfRange

definition executable_trajectory :: "env \<Rightarrow> Goal \<Rightarrow> Trajectory \<Rightarrow> controller \<Rightarrow> built" where
  "executable_trajectory e goal new_trajectory s =
     (if preempted s then
        (if sampler s \<noteq> None \<and> length (the (sampler s)) > 2 then
           (case spliceTrajectories e (the (sampler s)) new_trajectory (time_now e) of
              None \<Rightarrow> SpliceFailed
            | Some t \<Rightarrow> Executable t)
         else
           (case spliceTrajectories e [last_sample s] new_trajectory (Num 0) of
              None \<Rightarrow> SpliceFailed
            | Some t \<Rightarrow> Executable t))
      else if length new_trajectory > 1 then
        (if dless (Num 0) (time_from_start (hd (traj_points (g_trajectory goal)))) then
           Executable
             (getPointFromCurrent e (length (qd (hd new_trajectory)) > 0)
                (length (qdd (hd new_trajectory)) > 0) True s # new_trajectory)
         else Executable new_trajectory)
      else
        (case new_trajectory of
           [] \<Rightarrow> OutOfRange
         | p0 # rest \<Rightarrow>
             Executable
               [getPointFromCurrent e (length (qd p0) > 0) (length (qdd p0) > 0) False s, p0]))"

text \<open>Lines 420--441 and 451--472: the two tolerance loops have the same shape. In the
  inner loop over the entries of the message, a matching name sets \<^verbatim>\<open>index\<close> and
  leaves the loop; the test \<^verbatim>\<open>index == -1\<close> and the three assignments stand inside
  the same loop body, after the \<^verbatim>\<open>break\<close>. \<open>Return\<close> is the \<^verbatim>\<open>return\<close> of the
  handler, \<open>Continue\<close> the normal end of a loop. \<open>copy\<close> is the three assignments
  for the entry at hand.\<close>

datatype 'a flow = Continue 'a | Return 'a

fun convert_inner ::
  "string \<Rightarrow> (JointTolerance \<Rightarrow> controller \<Rightarrow> controller) \<Rightarrow> string \<Rightarrow> int \<Rightarrow>
   JointTolerance list \<Rightarrow> controller \<Rightarrow> controller flow" where
  "convert_inner text copy jn index [] s = Continue s"
| "convert_inner text copy jn index (t # ts) s =
     (if jn = name t then Continue s
      else if index = - 1 then Return (ROS_ERROR text (setAborted INVALID_JOINTS text s))
      else convert_inner text copy jn index ts (copy t s))"

fun convert_outer ::
  "string \<Rightarrow> (nat \<Rightarrow> JointTolerance \<Rightarrow> controller \<Rightarrow> controller) \<Rightarrow>
   JointTolerance list \<Rightarrow> nat list \<Rightarrow> controller \<Rightarrow> controller flow" where
  "convert_outer text copy tols [] s = Continue s"
| "convert_outer text copy tols (j # js) s =
     (case convert_inner text (copy j) (getName (joints s ! j)) (- 1) tols s of
        Return s' \<Rightarrow> Return s'
      | Continue s' \<Rightarrow> convert_outer text copy tols js s')"

definition copy_path_tolerance :: "nat \<Rightarrow> JointTolerance \<Rightarrow> controller \<Rightarrow> controller" where
  "copy_path_tolerance j t s =
     s\<lparr>path_tolerance := (path_tolerance s)\<lparr>
          q := (q (path_tolerance s))[j := position t],
          qd := (qd (path_tolerance s))[j := velocity t],
          qdd := (qdd (path_tolerance s))[j := acceleration t]\<rparr>\<rparr>"

definition copy_goal_tolerance :: "nat \<Rightarrow> JointTolerance \<Rightarrow> controller \<Rightarrow> controller" where
  "copy_goal_tolerance j t s =
     s\<lparr>goal_tolerance := (goal_tolerance s)\<lparr>
          q := (q (goal_tolerance s))[j := position t],
          qd := (qd (goal_tolerance s))[j := velocity t],
          qdd := (qdd (goal_tolerance s))[j := acceleration t]\<rparr>\<rparr>"

text \<open>Lines 416--446.\<close>

definition convert_path_tolerances :: "Goal \<Rightarrow> controller \<Rightarrow> controller flow" where
  "convert_path_tolerances goal s =
     (if length (g_path_tolerance goal) = length (joints s) then
        convert_outer ''Unable to convert path tolerances'' copy_path_tolerance
          (g_path_tolerance goal) [0..<length (joints s)] (s\<lparr>has_path_tolerance := True\<rparr>)
      else Continue (s\<lparr>has_path_tolerance := False\<rparr>))"

text \<open>Lines 448--483.\<close>

definition convert_goal_tolerances :: "env \<Rightarrow> Goal \<Rightarrow> controller \<Rightarrow> controller flow" where
  "convert_goal_tolerances e goal s =
     (if length (g_goal_tolerance goal) = length (joints s) then
        convert_outer ''Unable to convert goal tolerances'' copy_goal_tolerance
          (g_goal_tolerance goal) [0..<length (joints s)] s
      else
        Continue
          (fold (\<lambda>j c. c\<lparr>goal_tolerance := (goal_tolerance c)\<lparr>
                    q := (q (goal_tolerance c))[j := literal e 0.02],
                    qd := (qd (goal_tolerance c))[j := literal e 0.02],
                    qdd := (qdd (goal_tolerance c))[j := literal e 0.02]\<rparr>\<rparr>)
             [0..<length (joints s)] s))"

text \<open>The handler up to its wait loop has three ways to end: it returns, it enters the
  loop, or it read out of range.\<close>

datatype intake = Returned controller | EnterLoop controller | Undefined

text \<open>Lines 416--496, after the sampler is installed.\<close>

definition tolerances_and_start :: "env \<Rightarrow> Goal \<Rightarrow> controller \<Rightarrow> intake" where
  "tolerances_and_start e goal s =
     (case convert_path_tolerances goal s of
        Return s' \<Rightarrow> Returned s'
      | Continue s1 \<Rightarrow>
          (case convert_goal_tolerances e goal s1 of
             Return s' \<Rightarrow> Returned s'
           | Continue s2 \<Rightarrow>
               (let s3 = s2\<lparr>goal_time_tolerance := g_goal_time_tolerance goal,
                           manager_calls := manager_calls s2 @ [requestStart (ctrl_name s2)]\<rparr>
                in if \<not> start_granted e (ctrl_name s3) then
                     Returned
                       (ROS_ERROR ''Cannot execute trajectory, unable to start controller.''
                          (setAborted GOAL_TOLERANCE_VIOLATED
                             ''Cannot execute trajectory, unable to start controller.'' s3))
                   else EnterLoop (s3\<lparr>preempted := False\<rparr>))))"

text \<open>Lines 311--496.\<close>

definition executeCb_intake :: "env \<Rightarrow> Goal \<Rightarrow> controller \<Rightarrow> intake" where
  "executeCb_intake e goal s =
     (if \<not> initialized s then
        Returned (setAborted SUCCESSFUL ''Controller is not initialized.'' s)
      else if traj_points (g_trajectory goal) = [] then
        Returned (s\<lparr>manager_calls := manager_calls s @ [requestStop (ctrl_name s)]\<rparr>)
      else if length (traj_joint_names (g_trajectory goal)) \<noteq> length (joints s) then
        Returned
          (ROS_ERROR ''Trajectory goal size does not match controlled joints size.''
             (setAborted INVALID_JOINTS
                ''Trajectory goal size does not match controlled joints size.'' s))
      else
        (case trajectoryFromMsg e (g_trajectory goal) (joint_names s) of
           None \<Rightarrow>
             Returned
               (ROS_ERROR ''Trajectory goal does not match controlled joints''
                  (setAborted INVALID_JOINTS
                     ''Trajectory goal does not match controlled joints'' s))
         | Some new_trajectory \<Rightarrow>
             (case executable_trajectory e goal new_trajectory s of
                SpliceFailed \<Rightarrow>
                  Returned
                    (ROS_ERROR ''Unable to splice trajectory''
                       (setAborted INVALID_JOINTS ''Unable to splice trajectory'' s))
              | OutOfRange \<Rightarrow> Undefined
              | Executable t \<Rightarrow> tolerances_and_start e goal (s\<lparr>sampler := Some t\<rparr>))))"

text \<open>Lines 497--512: the wait loop. While the handler sleeps, the other threads act:
  the control thread calls \<^verbatim>\<open>update\<close>, a client asks for a preempt, the hardware
  changes the readings of the joints. A schedule gives, for each pass of the loop, the
  stamp of the feedback and what happens during the sleep. The loop has no bound of
  its own: when the schedule ends with the goal still active, the handler has not
  returned, which is \<open>None\<close>.\<close>

datatype event = Tick double | PreemptRequest | Readings "(double \<times> double \<times> double) list"

fun occur :: "env \<Rightarrow> event \<Rightarrow> controller \<Rightarrow> controller" where
  "occur e (Tick now) s = snd (update e now s)"
| "occur e PreemptRequest s = s\<lparr>server := (server s)\<lparr>isPreemptRequested := True\<rparr>\<rparr>"
| "occur e (Readings rs) s =
     s\<lparr>joints := map (\<lambda>(j, (p, v, f)). j\<lparr>getPosition := p, getVelocity := v, getEffort := f\<rparr>)
                   (zip (joints s) rs)
                 @ drop (length rs) (joints s)\<rparr>"

definition publishFeedback :: "double \<Rightarrow> controller \<Rightarrow> controller" where
  "publishFeedback now s =
     (let fb = (feedback s)\<lparr>stamp := now\<rparr>
      in s\<lparr>feedback := fb, server := (server s)\<lparr>published := published (server s) @ [fb]\<rparr>\<rparr>)"

definition loop_exit :: "controller \<Rightarrow> controller option" where
  "loop_exit s =
     (if \<not> isActive (server s) then Some s
      else if isPreemptRequested (server s) then
        Some ((setPreempted SUCCESSFUL ''Trajectory preempted'' s)\<lparr>preempted := True\<rparr>)
      else None)"

fun wait_loop ::
  "env \<Rightarrow> (double \<times> event list) list \<Rightarrow> controller \<Rightarrow> controller option" where
  "wait_loop e [] s = loop_exit s"
| "wait_loop e ((now, evs) # rest) s =
     (case loop_exit s of
        Some s' \<Rightarrow> Some s'
      | None \<Rightarrow> wait_loop e rest (fold (occur e) evs (publishFeedback now s)))"

text \<open>Lines 514--521, after the loop.\<close>

definition after_loop :: "controller \<Rightarrow> controller" where
  "after_loop s =
     (let s1 = s\<lparr>sampler := None\<rparr>
      in if stop_with_action s1 \<and> \<not> preempted s1 then
           s1\<lparr>manager_calls := manager_calls s1 @ [requestStop (ctrl_name s1)]\<rparr>
         else s1)"

text \<open>The whole handler: \<open>None\<close> when it has not returned by the end of the schedule,
  or read out of range.\<close>

definition executeCb ::
  "env \<Rightarrow> (double \<times> event list) list \<Rightarrow> Goal \<Rightarrow> controller \<Rightarrow> controller option" where
  "executeCb e sched goal s =
     (case executeCb_intake e goal s of
        Returned s' \<Rightarrow> Some s'
      | Undefined \<Rightarrow> None
      | EnterLoop s1 \<Rightarrow>
          (case wait_loop e sched s1 of
             None \<Rightarrow> None
           | Some s2 \<Rightarrow> Some (after_loop s2)))"

subsection \<open>Descriptions used to state the properties\<close>








text \<open>The controller in which the part of the handler before the wait loop ends.\<close>

fun final :: "intake \<Rightarrow> controller option" where
  "final (Returned s) = Some s"
| "final (EnterLoop s) = Some s"
| "final Undefined = None"


text \<open>Between two states of the server, at most one outcome was reported, and only on
  a goal that was active and no longer is; no goal became active.\<close>

definition one_outcome :: "server_t \<Rightarrow> server_t \<Rightarrow> bool" where
  "one_outcome srv srv' =
     ((reported srv' = reported srv \<or>
       (isActive srv \<and> \<not> isActive srv' \<and>
        length (reported srv') = length (reported srv) + 1 \<and>
        take (length (reported srv)) (reported srv') = reported srv)) \<and>
      (isActive srv' \<longrightarrow> isActive srv))"

subsection \<open>A one-joint arm, for concrete runs\<close>

text \<open>An arithmetic for the examples: exact on finite numbers, NaN otherwise.\<close>

fun exact :: "(real \<Rightarrow> real \<Rightarrow> real) \<Rightarrow> double \<Rightarrow> double \<Rightarrow> double" where
  "exact f (Num a) (Num b) = Num (f a b)"
| "exact f a b = NaN"

text \<open>The collaborators of the examples: a sampler that returns the last point of its
  trajectory, the difference as angular distance, a conversion that takes the points
  of the message as they are, from time 10 on, when the joint names agree, a splice
  that concatenates, and a manager that grants a start or not.\<close>

definition example_env :: "bool \<Rightarrow> env" where
  "example_env granted =
     \<lparr>sample = (\<lambda>tr now. last tr),
      shortest_angular_distance = (\<lambda>a b. exact (-) b a),
      fadd = exact (+),
      fsub = exact (-),
      literal = Num,
      trajectoryFromMsg = (\<lambda>m names.
         if traj_joint_names m = names then
           Some (map (\<lambda>p. \<lparr>q = positions p, qd = velocities p, qdd = accelerations p,
                             time = exact (+) (Num 10) (time_from_start p)\<rparr>) (traj_points m))
         else None),
      spliceTrajectories = (\<lambda>old new t. Some (old @ new)),
      start_granted = (\<lambda>n. granted),
      time_now = Num 10\<rparr>"

definition joint1 :: "double \<Rightarrow> double \<Rightarrow> JointHandle" where
  "joint1 x v =
     \<lparr>getName = ''j1'', getPosition = x, getVelocity = v, getEffort = Num 0, commands = []\<rparr>"

definition example_nh :: NodeHandle where
  "example_nh = \<lparr>getNamespace = ''arm'', param_joints = Some (TypeArray [TypeString ''j1'']),
                  param_stop_with_action = None\<rparr>"

definition example_manager :: ControllerManager where
  "example_manager =
     \<lparr>getJointHandle = (\<lambda>n. if n = ''j1'' then Some (joint1 (Num 0) (Num 0)) else None)\<rparr>"

definition empty_point :: TrajectoryPoint where
  "empty_point = \<lparr>q = [], qd = [], qdd = [], time = Num 0\<rparr>"

definition empty_msg_point :: JointTrajectoryPoint where
  "empty_msg_point = \<lparr>positions = [], velocities = [], accelerations = [], effort = [],
                       time_from_start = Num 0\<rparr>"

text \<open>A controller object before \<^verbatim>\<open>init\<close>: empty vectors, no server activity. The
  argument is the content of \<^verbatim>\<open>has_path_tolerance_\<close>, which nothing has assigned
  yet.\<close>

definition constructed :: "bool \<Rightarrow> controller" where
  "constructed b =
     \<lparr>initialized = False, ctrl_name = [], joint_names = [], joints = [],
      stop_with_action = False, sampler = None, preempted = False, has_path_tolerance = b,
      last_sample = empty_point, path_tolerance = empty_point, goal_tolerance = empty_point,
      goal_time_tolerance = Num 0,
      feedback = \<lparr>stamp = Num 0, fb_joint_names = [], desired = empty_msg_point,
                   actual = empty_msg_point, error = empty_msg_point\<rparr>,
      server = new_server, manager_calls = [], ros_errors = []\<rparr>"

definition zero_point :: TrajectoryPoint where
  "zero_point = \<lparr>q = [Num 0], qd = [Num 0], qdd = [Num 0], time = Num 0\<rparr>"

text \<open>The arm after \<^verbatim>\<open>init\<close>, with its joint at position \<open>x\<close> and velocity \<open>v\<close>.\<close>

definition idle_arm :: "bool \<Rightarrow> double \<Rightarrow> double \<Rightarrow> controller" where
  "idle_arm b x v =
     \<lparr>initialized = True, ctrl_name = ''arm'', joint_names = [''j1''], joints = [joint1 x v],
      stop_with_action = False, sampler = None, preempted = False, has_path_tolerance = b,
      last_sample = empty_point, path_tolerance = zero_point, goal_tolerance = zero_point,
      goal_time_tolerance = Num 0,
      feedback =
        \<lparr>stamp = Num 0, fb_joint_names = [''j1''],
         desired = \<lparr>positions = [Num 0], velocities = [Num 0], accelerations = [Num 0],
                     effort = [], time_from_start = Num 0\<rparr>,
         actual = \<lparr>positions = [Num 0], velocities = [Num 0], accelerations = [],
                    effort = [Num 0], time_from_start = Num 0\<rparr>,
         error = \<lparr>positions = [Num 0], velocities = [Num 0], accelerations = [], effort = [],
                   time_from_start = Num 0\<rparr>\<rparr>,
      server = new_server, manager_calls = [], ros_errors = []\<rparr>"

text \<open>The server accepts a goal for the controller: the goal is active when the
  handler starts.\<close>

definition accepted :: "controller \<Rightarrow> controller" where
  "accepted s = s\<lparr>server := (server s)\<lparr>isActive := True, isPreemptRequested := False\<rparr>\<rparr>"

text \<open>A goal for the arm: one point, position 1 at one second from the start, with
  the given path tolerances and no goal tolerances.\<close>

definition example_goal :: "JointTolerance list \<Rightarrow> Goal" where
  "example_goal tols =
     \<lparr>g_trajectory =
        \<lparr>traj_joint_names = [''j1''],
         traj_points = [\<lparr>positions = [Num 1], velocities = [], accelerations = [], effort = [],
                          time_from_start = Num 1\<rparr>]\<rparr>,
      g_path_tolerance = tols, g_goal_tolerance = [], g_goal_time_tolerance = Num 0\<rparr>"

text \<open>The trajectory that the handler builds from this goal, from the joint at 0.\<close>

definition example_trajectory :: Trajectory where
  "example_trajectory = [\<lparr>q = [Num 0], qd = [], qdd = [], time = Num 10\<rparr>,
                         \<lparr>q = [Num 1], qd = [], qdd = [], time = Num 11\<rparr>]"


text \<open>A tolerance entry for the joint of the given name.\<close>

definition example_tolerance :: "string \<Rightarrow> JointTolerance" where
  "example_tolerance n =
     \<lparr>name = n, position = Num 0.1, velocity = Num 0.2, acceleration = Num 0.3\<rparr>"

text \<open>The arm after the handler has returned from \<open>example_goal []\<close> because the manager
  refused the start.\<close>

definition refused_arm :: controller where
  "refused_arm =
     (idle_arm False (Num 0) (Num 0))\<lparr>
        sampler := Some example_trajectory,
        goal_tolerance := \<lparr>q = [Num 0.02], qd = [Num 0.02], qdd = [Num 0.02], time = Num 0\<rparr>,
        server := new_server\<lparr>
           calls := [(Aborted, GOAL_TOLERANCE_VIOLATED,
                      ''Cannot execute trajectory, unable to start controller.'')],
           reported := [(Aborted, GOAL_TOLERANCE_VIOLATED,
                         ''Cannot execute trajectory, unable to start controller.'')]\<rparr>,
        manager_calls := [requestStart ''arm''],
        ros_errors := [''Cannot execute trajectory, unable to start controller.'']\<rparr>"

text \<open>An arm of two joints, as \<^verbatim>\<open>init\<close> sets it up, with an accepted goal that names
  both joints and gives a path tolerance for each.\<close>

definition example_nh2 :: NodeHandle where
  "example_nh2 = \<lparr>getNamespace = ''arm'',
                   param_joints = Some (TypeArray [TypeString ''j1'', TypeString ''j2'']),
                   param_stop_with_action = None\<rparr>"

definition example_manager2 :: ControllerManager where
  "example_manager2 =
     \<lparr>getJointHandle = (\<lambda>n. if n = ''j1'' then Some (joint1 (Num 0) (Num 0))
                             else if n = ''j2'' then
                               Some ((joint1 (Num 0) (Num 0))\<lparr>getName := ''j2''\<rparr>)
                             else None)\<rparr>"

definition two_joint_arm :: controller where
  "two_joint_arm =
     (case init example_nh2 (Some example_manager2) (constructed False) of
        Some (ok, s) \<Rightarrow> accepted s
      | None \<Rightarrow> constructed False)"

definition example_goal2 :: Goal where
  "example_goal2 =
     \<lparr>g_trajectory =
        \<lparr>traj_joint_names = [''j1'', ''j2''],
         traj_points = [\<lparr>positions = [Num 1, Num 1], velocities = [], accelerations = [],
                          effort = [], time_from_start = Num 1\<rparr>]\<rparr>,
      g_path_tolerance = [example_tolerance ''j1'', example_tolerance ''j2''],
      g_goal_tolerance = [], g_goal_time_tolerance = Num 0\<rparr>"

subsection \<open>The controllers that a run reaches\<close>


section \<open>Properties\<close>

subsection \<open>Facts about index loops\<close>

lemma fold_list_update_upt:
  "k \<le> length xs \<Longrightarrow> fold (\<lambda>j ys. ys[j := f j]) [0..<k] xs = map f [0..<k] @ drop k xs"
proof (induction k)
  case 0
  then show ?case by simp
next
  case (Suc k)
  then have "k < length xs" by simp
  then have "(map f [0..<k] @ drop k xs)[k := f k] = map f [0..<k] @ f k # drop (Suc k) xs"
    by (simp add: list_update_append upd_conv_take_nth_drop)
  with Suc show ?case by simp
qed

lemma fold_list_update_all:
  "length xs = n \<Longrightarrow> fold (\<lambda>j ys. ys[j := f j]) [0..<n] xs = map f [0..<n]"
  by (simp add: fold_list_update_upt)

lemma map_nth_upt: "map (\<lambda>j. g (xs ! j)) [0..<length xs] = map g xs"
proof -
  have "map (\<lambda>j. g (xs ! j)) [0..<length xs] = map g (map ((!) xs) [0..<length xs])"
    by (simp add: comp_def)
  then show ?thesis by (simp only: map_nth)
qed

lemma fold_q:
  "fold (\<lambda>j p. p\<lparr>q := (q p)[j := f j]\<rparr>) js p = p\<lparr>q := fold (\<lambda>j ys. ys[j := f j]) js (q p)\<rparr>"
  by (induction js arbitrary: p) simp_all

lemma fold_qd:
  "fold (\<lambda>j p. p\<lparr>qd := (qd p)[j := f j]\<rparr>) js p = p\<lparr>qd := fold (\<lambda>j ys. ys[j := f j]) js (qd p)\<rparr>"
  by (induction js arbitrary: p) simp_all

lemma fold_qdd:
  "fold (\<lambda>j p. p\<lparr>qdd := (qdd p)[j := f j]\<rparr>) js p = p\<lparr>qdd := fold (\<lambda>j ys. ys[j := f j]) js (qdd p)\<rparr>"
  by (induction js arbitrary: p) simp_all

lemma length_resize: "length (resize n xs) = n"
  by (simp add: resize_def)

lemma map_const_upt: "map (\<lambda>j. c) [0..<n] = replicate n c"
  by (simp add: map_replicate_const)

lemma fold_upt_invariant:
  assumes "P 0 s" and "\<And>k c. k < n \<Longrightarrow> P k c \<Longrightarrow> P (Suc k) (f k c)"
  shows "P n (fold f [0..<n] s)"
proof -
  have "k \<le> n \<Longrightarrow> P k (fold f [0..<k] s)" for k
  proof (induction k)
    case 0
    show ?case using assms(1) by simp
  next
    case (Suc k)
    then show ?case using assms(2) [of k "fold f [0..<k] s"] by simp
  qed
  then show ?thesis by simp
qed

lemma list_update_prefix_step:
  assumes "k < length xs"
  shows "(map f [0..<k] @ drop k xs)[k := g (xs ! k)] = map (\<lambda>j. if j = k then g (xs ! k) else f j) [0..<Suc k] @ drop (Suc k) xs"
  using assms by (simp add: list_update_append upd_conv_take_nth_drop)

lemma nth_prefix_drop:
  "k < length xs \<Longrightarrow> (map f [0..<k] @ drop k xs) ! k = xs ! k"
  by (simp add: nth_append)

lemma hold_position_joints:
  "hold_position s =
     s\<lparr>joints := map (\<lambda>j. setPositionCommand (q (last_sample s) ! j) (Num 0) (Num 0) (joints s ! j))
                   [0..<length (joints s)]\<rparr>"
proof -
  let ?f = "\<lambda>j. setPositionCommand (q (last_sample s) ! j) (Num 0) (Num 0) (joints s ! j)"
  let ?P = "\<lambda>k c. c = s\<lparr>joints := map ?f [0..<k] @ drop k (joints s)\<rparr>"
  have "?P (length (joints s)) (fold (\<lambda>j c. c\<lparr>joints := (joints c)[j :=
              setPositionCommand (q (last_sample c) ! j) (Num 0) (Num 0) (joints c ! j)]\<rparr>)
       [0..<length (joints s)] s)"
  proof (rule fold_upt_invariant)
    show "?P 0 s" by simp
  next
    fix k c
    assume k: "k < length (joints s)" and c: "?P k c"
    show "?P (Suc k) (c\<lparr>joints := (joints c)[k :=
              setPositionCommand (q (last_sample c) ! k) (Num 0) (Num 0) (joints c ! k)]\<rparr>)"
      using k by (simp add: c nth_append list_update_append upd_conv_take_nth_drop)
  qed
  then show ?thesis by (simp add: hold_position_def)
qed

subsection \<open>What getPointFromCurrent returns\<close>

lemmas point_loops =
  fold_q fold_qd fold_qdd fold_list_update_all length_resize map_nth_upt map_const_upt

text \<open>Claim C9. getPointFromCurrent(include\_vel, include\_acc, zero\_vel) returns the point
  whose \<open>q\<close> is the present joint positions in the order of \<open>joints\<close>; whose
  \<open>qd\<close> is empty unless include\_vel, and then all zero if zero\_vel and the present
  joint velocities otherwise; whose \<open>qdd\<close> is all zero when include\_acc and empty
  otherwise; and whose time is the wall-clock reading.\<close>

theorem getPointFromCurrent_fields:
  "getPointFromCurrent e incl_vel incl_acc zero_vel s =
     \<lparr>q = map getPosition (joints s),
      qd = (if incl_vel then (if zero_vel then replicate (length (joints s)) (Num 0)
                              else map getVelocity (joints s))
            else []),
      qdd = (if incl_acc then replicate (length (joints s)) (Num 0) else []),
      time = time_now e\<rparr>"
  by (simp add: getPointFromCurrent_def Let_def point_loops)

subsection \<open>Holding the last sample\<close>

text \<open>Claim C7. When the controller is initialized and no goal is executing (the server
  has no active goal, or there is no sampler): if \<open>q\<close> of the last sample has one
  entry per joint, \<^verbatim>\<open>update\<close> writes the command (last\_sample.q[j], 0, 0) to every
  joint \<open>j\<close>, changes nothing else and returns true; otherwise it writes no command,
  changes nothing and returns false.\<close>

theorem update_hold:
  assumes "initialized s" and "\<not> (isActive (server s) \<and> sampler s \<noteq> None)"
  shows "update e now s =
     (if length (q (last_sample s)) = length (joints s) then
        (True, s\<lparr>joints := map (\<lambda>j. setPositionCommand (q (last_sample s) ! j) (Num 0) (Num 0) (joints s ! j))
                             [0..<length (joints s)]\<rparr>)
      else (False, s))"
  using assms by (auto simp add: update_def hold_position_joints)

theorem update_hold_witness:
  "initialized ((idle_arm False (Num 0) (Num 0))\<lparr>last_sample := \<lparr>q = [Num 0.5], qd = [], qdd = [], time = Num 2\<rparr>\<rparr>) \<and>
   \<not> isActive (server ((idle_arm False (Num 0) (Num 0))\<lparr>last_sample := \<lparr>q = [Num 0.5], qd = [], qdd = [], time = Num 2\<rparr>\<rparr>)) \<and>
   update (example_env True) (Num 3)
       ((idle_arm False (Num 0) (Num 0))\<lparr>last_sample := \<lparr>q = [Num 0.5], qd = [], qdd = [], time = Num 2\<rparr>\<rparr>) =
     (True, (idle_arm False (Num 0) (Num 0))\<lparr>last_sample := \<lparr>q = [Num 0.5], qd = [], qdd = [], time = Num 2\<rparr>,
               joints := [(joint1 (Num 0) (Num 0))\<lparr>commands := [(Num 0.5, Num 0, Num 0)]\<rparr>]\<rparr>)"
proof -
  let ?s = "(idle_arm False (Num 0) (Num 0))\<lparr>last_sample := \<lparr>q = [Num 0.5], qd = [], qdd = [], time = Num 2\<rparr>\<rparr>"
  have i: "initialized ?s" and a: "\<not> isActive (server ?s)"
    by (simp_all add: idle_arm_def new_server_def)
  from a have h: "\<not> (isActive (server ?s) \<and> sampler ?s \<noteq> None)" by simp
  show ?thesis
    using i a update_hold [OF i h, of "example_env True" "Num 3"]
    by (simp add: idle_arm_def joint1_def setPositionCommand_def)
qed

subsection \<open>The calls of one tick\<close>


lemma setAborted_fields [simp]:
  "path_tolerance (setAborted c t s) = path_tolerance s"
  "feedback (setAborted c t s) = feedback s"
  "ros_errors (setAborted c t s) = ros_errors s"
  "server (setAborted c t s) = terminal_call (Aborted, c, t) (server s)"
  by (simp_all add: setAborted_def)

lemma ROS_ERROR_fields [simp]:
  "path_tolerance (ROS_ERROR t s) = path_tolerance s"
  "feedback (ROS_ERROR t s) = feedback s"
  "ros_errors (ROS_ERROR t s) = ros_errors s @ [t]"
  "server (ROS_ERROR t s) = server s"
  by (simp_all add: ROS_ERROR_def)

lemma abort_and_log:
  "ROS_ERROR t' (setAborted c t s) =
     s\<lparr>server := terminal_call (Aborted, c, t) (server s), ros_errors := ros_errors s @ [t']\<rparr>"
  by (simp add: ROS_ERROR_def setAborted_def)
























subsection \<open>The tolerance loops of the goal handler\<close>

lemma convert_inner_unset:
  "convert_inner text copy jn (- 1) tols s = Continue s \<or>
   convert_inner text copy jn (- 1) tols s = Return (ROS_ERROR text (setAborted INVALID_JOINTS text s))"
  by (cases tols) simp_all

lemma convert_outer_shape:
  "convert_outer text copy tols js s = Continue s \<or>
   convert_outer text copy tols js s = Return (ROS_ERROR text (setAborted INVALID_JOINTS text s))"
proof (induction js)
  case Nil
  show ?case by simp
next
  case (Cons j js)
  from convert_inner_unset [of "text" "copy j" "getName (joints s ! j)" tols s]
  show ?case
  proof
    assume "convert_inner text (copy j) (getName (joints s ! j)) (- 1) tols s = Continue s"
    with Cons show ?thesis by auto
  next
    assume "convert_inner text (copy j) (getName (joints s ! j)) (- 1) tols s =
            Return (ROS_ERROR text (setAborted INVALID_JOINTS text s))"
    then show ?thesis by simp
  qed
qed

lemma fold_goal_tolerance_only:
  assumes "\<And>j c. f j c = c\<lparr>goal_tolerance := g j c\<rparr>"
  shows "\<exists>gt. fold f js s = s\<lparr>goal_tolerance := gt\<rparr>"
proof (induction js arbitrary: s)
  case Nil
  show ?case by (rule exI [of _ "goal_tolerance s"]) simp
next
  case (Cons j js)
  from Cons [of "f j s"] obtain gt where "fold f js (f j s) = (f j s)\<lparr>goal_tolerance := gt\<rparr>"
    by blast
  then have "fold f (j # js) s = s\<lparr>goal_tolerance := gt\<rparr>"
    by (simp add: assms)
  then show ?case by blast
qed

lemma convert_path_tolerances_shape:
  "(\<exists>hp. convert_path_tolerances goal s = Continue (s\<lparr>has_path_tolerance := hp\<rparr>)) \<or>
   convert_path_tolerances goal s =
     Return (ROS_ERROR ''Unable to convert path tolerances''
       (setAborted INVALID_JOINTS ''Unable to convert path tolerances''
          (s\<lparr>has_path_tolerance := True\<rparr>)))"
proof (cases "length (g_path_tolerance goal) = length (joints s)")
  case True
  from convert_outer_shape [of "''Unable to convert path tolerances''" copy_path_tolerance
      "g_path_tolerance goal" "[0..<length (joints s)]" "s\<lparr>has_path_tolerance := True\<rparr>"]
  show ?thesis using True by (auto simp add: convert_path_tolerances_def)
next
  case False
  then show ?thesis by (auto simp add: convert_path_tolerances_def)
qed

lemma convert_goal_tolerances_shape:
  "(\<exists>gt. convert_goal_tolerances e goal s = Continue (s\<lparr>goal_tolerance := gt\<rparr>)) \<or>
   convert_goal_tolerances e goal s =
     Return (ROS_ERROR ''Unable to convert goal tolerances''
       (setAborted INVALID_JOINTS ''Unable to convert goal tolerances'' s))"
proof (cases "length (g_goal_tolerance goal) = length (joints s)")
  case True
  have s: "s = s\<lparr>goal_tolerance := goal_tolerance s\<rparr>" by simp
  from convert_outer_shape [of "''Unable to convert goal tolerances''" copy_goal_tolerance
      "g_goal_tolerance goal" "[0..<length (joints s)]" s]
  show ?thesis
  proof
    assume "convert_outer ''Unable to convert goal tolerances'' copy_goal_tolerance
      (g_goal_tolerance goal) [0..<length (joints s)] s = Continue s"
    with True have "convert_goal_tolerances e goal s = Continue s"
      by (simp add: convert_goal_tolerances_def)
    with s have "convert_goal_tolerances e goal s = Continue (s\<lparr>goal_tolerance := goal_tolerance s\<rparr>)"
      by simp
    then show ?thesis by blast
  next
    assume "convert_outer ''Unable to convert goal tolerances'' copy_goal_tolerance
      (g_goal_tolerance goal) [0..<length (joints s)] s =
        Return (ROS_ERROR ''Unable to convert goal tolerances''
          (setAborted INVALID_JOINTS ''Unable to convert goal tolerances'' s))"
    with True show ?thesis by (simp add: convert_goal_tolerances_def)
  qed
next
  case False
  have "\<exists>gt. fold (\<lambda>j c. c\<lparr>goal_tolerance := (goal_tolerance c)\<lparr>
                    q := (q (goal_tolerance c))[j := literal e 0.02],
                    qd := (qd (goal_tolerance c))[j := literal e 0.02],
                    qdd := (qdd (goal_tolerance c))[j := literal e 0.02]\<rparr>\<rparr>)
             [0..<length (joints s)] s = s\<lparr>goal_tolerance := gt\<rparr>"
    by (rule fold_goal_tolerance_only) (rule refl)
  with False show ?thesis by (auto simp add: convert_goal_tolerances_def)
qed

lemma tolerances_and_start_shape:
  "(\<exists>hp txt. tolerances_and_start e goal s =
       Returned (ROS_ERROR txt (setAborted INVALID_JOINTS txt (s\<lparr>has_path_tolerance := hp\<rparr>)))) \<or>
   (\<exists>hp gt. tolerances_and_start e goal s =
       (if \<not> start_granted e (ctrl_name s) then
          Returned
            (ROS_ERROR ''Cannot execute trajectory, unable to start controller.''
               (setAborted GOAL_TOLERANCE_VIOLATED
                  ''Cannot execute trajectory, unable to start controller.''
                  (s\<lparr>has_path_tolerance := hp, goal_tolerance := gt,
                     goal_time_tolerance := g_goal_time_tolerance goal,
                     manager_calls := manager_calls s @ [requestStart (ctrl_name s)]\<rparr>)))
        else
          EnterLoop
            (s\<lparr>has_path_tolerance := hp, goal_tolerance := gt,
               goal_time_tolerance := g_goal_time_tolerance goal,
               manager_calls := manager_calls s @ [requestStart (ctrl_name s)],
               preempted := False\<rparr>)))"
proof -
  from convert_path_tolerances_shape [of goal s] show ?thesis
  proof (elim disjE exE)
    fix hp
    assume p: "convert_path_tolerances goal s = Continue (s\<lparr>has_path_tolerance := hp\<rparr>)"
    from convert_goal_tolerances_shape [of e goal "s\<lparr>has_path_tolerance := hp\<rparr>"] show ?thesis
    proof (elim disjE exE)
      fix gt
      assume g: "convert_goal_tolerances e goal (s\<lparr>has_path_tolerance := hp\<rparr>) =
                 Continue (s\<lparr>has_path_tolerance := hp, goal_tolerance := gt\<rparr>)"
      have "tolerances_and_start e goal s =
       (if \<not> start_granted e (ctrl_name s) then
          Returned
            (ROS_ERROR ''Cannot execute trajectory, unable to start controller.''
               (setAborted GOAL_TOLERANCE_VIOLATED
                  ''Cannot execute trajectory, unable to start controller.''
                  (s\<lparr>has_path_tolerance := hp, goal_tolerance := gt,
                     goal_time_tolerance := g_goal_time_tolerance goal,
                     manager_calls := manager_calls s @ [requestStart (ctrl_name s)]\<rparr>)))
        else
          EnterLoop
            (s\<lparr>has_path_tolerance := hp, goal_tolerance := gt,
               goal_time_tolerance := g_goal_time_tolerance goal,
               manager_calls := manager_calls s @ [requestStart (ctrl_name s)],
               preempted := False\<rparr>))"
        by (simp add: tolerances_and_start_def p g Let_def)
      then show ?thesis by blast
    next
      assume "convert_goal_tolerances e goal (s\<lparr>has_path_tolerance := hp\<rparr>) =
        Return (ROS_ERROR ''Unable to convert goal tolerances''
          (setAborted INVALID_JOINTS ''Unable to convert goal tolerances''
             (s\<lparr>has_path_tolerance := hp\<rparr>)))"
      then have "tolerances_and_start e goal s =
        Returned (ROS_ERROR ''Unable to convert goal tolerances''
          (setAborted INVALID_JOINTS ''Unable to convert goal tolerances''
             (s\<lparr>has_path_tolerance := hp\<rparr>)))"
        by (simp add: tolerances_and_start_def p)
      then show ?thesis by blast
    qed
  next
    assume "convert_path_tolerances goal s =
     Return (ROS_ERROR ''Unable to convert path tolerances''
       (setAborted INVALID_JOINTS ''Unable to convert path tolerances''
          (s\<lparr>has_path_tolerance := True\<rparr>)))"
    then have "tolerances_and_start e goal s =
        Returned (ROS_ERROR ''Unable to convert path tolerances''
          (setAborted INVALID_JOINTS ''Unable to convert path tolerances''
             (s\<lparr>has_path_tolerance := True\<rparr>)))"
      by (simp add: tolerances_and_start_def)
    then show ?thesis by blast
  qed
qed

lemma tolerances_and_start_sampler:
  "\<exists>s'. final (tolerances_and_start e goal s) = Some s' \<and> sampler s' = sampler s"
  using tolerances_and_start_shape [of e goal s]
  by (elim disjE exE) (simp_all add: ROS_ERROR_def setAborted_def)

lemma tolerances_and_start_refused:
  assumes "final (tolerances_and_start e goal s) = Some s'"
    and "manager_calls s' = manager_calls s @ [requestStart (ctrl_name s)]"
    and "\<not> start_granted e (ctrl_name s)"
  shows "tolerances_and_start e goal s = Returned s' \<and>
         server s' = terminal_call (Aborted, GOAL_TOLERANCE_VIOLATED,
            ''Cannot execute trajectory, unable to start controller.'') (server s)"
  using tolerances_and_start_shape [of e goal s] assms
  by (elim disjE exE) (auto simp add: ROS_ERROR_def setAborted_def)

lemma tolerances_and_start_path_tolerance:
  "final (tolerances_and_start e goal s) = Some s' \<Longrightarrow> path_tolerance s' = path_tolerance s"
  using tolerances_and_start_shape [of e goal s]
  by (elim disjE exE) (auto simp add: abort_and_log split: if_splits)

lemma executeCb_Returned:
  "executeCb_intake e goal s = Returned s' \<Longrightarrow> executeCb e sched goal s = Some s'"
  by (simp add: executeCb_def)

lemma executeCb_intake_shape:
  "executeCb_intake e goal s = Undefined \<or>
   (\<exists>c. executeCb_intake e goal s = Returned c \<and>
        (manager_calls c = manager_calls s \<or>
         manager_calls c = manager_calls s @ [requestStop (ctrl_name s)])) \<or>
   (\<exists>t. executeCb_intake e goal s = tolerances_and_start e goal (s\<lparr>sampler := Some t\<rparr>))"
proof (cases "initialized s")
  case False
  then have "executeCb_intake e goal s =
      Returned (setAborted SUCCESSFUL ''Controller is not initialized.'' s)"
    by (simp add: executeCb_intake_def)
  moreover have "manager_calls (setAborted SUCCESSFUL ''Controller is not initialized.'' s) =
      manager_calls s"
    by (simp add: setAborted_def)
  ultimately show ?thesis by blast
next
  case i: True
  show ?thesis
  proof (cases "traj_points (g_trajectory goal) = []")
    case True
    with i have "executeCb_intake e goal s =
        Returned (s\<lparr>manager_calls := manager_calls s @ [requestStop (ctrl_name s)]\<rparr>)"
      by (simp add: executeCb_intake_def)
    moreover have "manager_calls (s\<lparr>manager_calls := manager_calls s @ [requestStop (ctrl_name s)]\<rparr>) =
        manager_calls s @ [requestStop (ctrl_name s)]"
      by simp
    ultimately show ?thesis by blast
  next
    case ne: False
    have ab: "manager_calls (ROS_ERROR t1 (setAborted c t2 s)) = manager_calls s" for t1 c t2
      by (simp add: abort_and_log)
    show ?thesis
    proof (cases "length (traj_joint_names (g_trajectory goal)) \<noteq> length (joints s)")
      case True
      with i ne have "executeCb_intake e goal s =
         Returned (ROS_ERROR ''Trajectory goal size does not match controlled joints size.''
             (setAborted INVALID_JOINTS
                ''Trajectory goal size does not match controlled joints size.'' s))"
        by (simp add: executeCb_intake_def)
      with ab show ?thesis by blast
    next
      case sz: False
      show ?thesis
      proof (cases "trajectoryFromMsg e (g_trajectory goal) (joint_names s)")
        case None
        with i ne sz have "executeCb_intake e goal s =
           Returned (ROS_ERROR ''Trajectory goal does not match controlled joints''
                  (setAborted INVALID_JOINTS
                     ''Trajectory goal does not match controlled joints'' s))"
          by (simp add: executeCb_intake_def)
        with ab show ?thesis by blast
      next
        case (Some nt)
        show ?thesis
        proof (cases "executable_trajectory e goal nt s")
          case (Executable t)
          with i ne sz Some have "executeCb_intake e goal s =
              tolerances_and_start e goal (s\<lparr>sampler := Some t\<rparr>)"
            by (simp add: executeCb_intake_def)
          then show ?thesis by blast
        next
          case SpliceFailed
          with i ne sz Some have "executeCb_intake e goal s =
              Returned (ROS_ERROR ''Unable to splice trajectory''
                       (setAborted INVALID_JOINTS ''Unable to splice trajectory'' s))"
            by (simp add: executeCb_intake_def)
          with ab show ?thesis by blast
        next
          case OutOfRange
          with i ne sz Some have "executeCb_intake e goal s = Undefined"
            by (simp add: executeCb_intake_def)
          then show ?thesis by blast
        qed
      qed
    qed
  qed
qed

lemma intake_keeps_path_tolerance:
  assumes "final (executeCb_intake e goal s) = Some s'"
  shows "path_tolerance s' = path_tolerance s"
proof -
  have "path_tolerance (ROS_ERROR t1 (setAborted c t2 s)) = path_tolerance s" for t1 c t2
    by simp
  then have "((executeCb_intake e goal s = Returned s' \<or> executeCb_intake e goal s = EnterLoop s')
       \<and> path_tolerance s' = path_tolerance s) \<or>
     (\<exists>t. executeCb_intake e goal s = tolerances_and_start e goal (s\<lparr>sampler := Some t\<rparr>))"
    using assms
    by (cases "trajectoryFromMsg e (g_trajectory goal) (joint_names s)";
        cases "executable_trajectory e goal
                 (the (trajectoryFromMsg e (g_trajectory goal) (joint_names s))) s")
       (auto simp add: executeCb_intake_def setAborted_def split: if_splits)
  then show ?thesis
  proof (elim disjE exE conjE)
    fix t
    assume r: "executeCb_intake e goal s = tolerances_and_start e goal (s\<lparr>sampler := Some t\<rparr>)"
    with assms have "final (tolerances_and_start e goal (s\<lparr>sampler := Some t\<rparr>)) = Some s'"
      by simp
    then have "path_tolerance s' = path_tolerance (s\<lparr>sampler := Some t\<rparr>)"
      by (rule tolerances_and_start_path_tolerance)
    then show ?thesis by simp
  qed
qed

lemma get_joint_handles_has_path_tolerance:
  "get_joint_handles g ns s = Some s' \<Longrightarrow> has_path_tolerance s' = has_path_tolerance s"
  by (induction ns arbitrary: s) (auto split: option.splits)

lemma init_keeps_has_path_tolerance:
  assumes "init nh m s = Some (ok, s')"
  shows "has_path_tolerance s' = has_path_tolerance s"
  using assms
  by (auto simp add: init_def ROS_ERROR_def Let_def
      dest!: get_joint_handles_has_path_tolerance
      split: option.splits XmlRpcValue.splits prod.splits bool.splits if_splits)

subsection \<open>Unfolding the concrete runs\<close>

lemmas example_defs =
  example_env_def example_goal_def example_goal2_def example_tolerance_def accepted_def
  idle_arm_def joint1_def new_server_def zero_point_def empty_point_def empty_msg_point_def
  constructed_def example_nh_def example_manager_def example_nh2_def example_manager2_def
  two_joint_arm_def refused_arm_def example_trajectory_def

lemmas intake_defs =
  executeCb_def executeCb_intake_def executable_trajectory_def tolerances_and_start_def
  convert_path_tolerances_def convert_goal_tolerances_def copy_path_tolerance_def
  copy_goal_tolerance_def getPointFromCurrent_def point_loops abort_and_log setAborted_def ROS_ERROR_def
  terminal_call_def loop_exit_def after_loop_def Let_def

lemmas init_defs =
  init_def resize_feedback_def resize_point_def resize_def

lemma refused_run:
  "executeCb_intake (example_env False) (example_goal []) (accepted (idle_arm False (Num 0) (Num 0))) =
     Returned refused_arm"
  by (simp add: example_defs intake_defs)

subsection \<open>The goal handler\<close>

text \<open>Claim C6. When the controller is initialized and the goal has no trajectory
  points, the handler asks the manager to stop the controller and returns before
  the wait loop: the controller differs from the one before only by the stop request
  in the manager's calls. So no result is set on the goal, the sampler is as it was
  and no start request is made.\<close>

theorem empty_trajectory_stops:
  assumes "initialized s" and "traj_points (g_trajectory goal) = []"
  shows "executeCb_intake e goal s =
           Returned (s\<lparr>manager_calls := manager_calls s @ [requestStop (ctrl_name s)]\<rparr>) \<and>
         executeCb e sched goal s =
           Some (s\<lparr>manager_calls := manager_calls s @ [requestStop (ctrl_name s)]\<rparr>)"
  using assms by (simp add: executeCb_def executeCb_intake_def)

theorem empty_trajectory_stops_witness:
  "initialized (accepted (idle_arm False (Num 0) (Num 0))) \<and>
   traj_points (g_trajectory ((example_goal [])\<lparr>g_trajectory :=
       \<lparr>traj_joint_names = [''j1''], traj_points = []\<rparr>\<rparr>)) = [] \<and>
   executeCb (example_env True) []
       ((example_goal [])\<lparr>g_trajectory := \<lparr>traj_joint_names = [''j1''], traj_points = []\<rparr>\<rparr>)
       (accepted (idle_arm False (Num 0) (Num 0))) =
     Some ((accepted (idle_arm False (Num 0) (Num 0)))\<lparr>manager_calls := [requestStop ''arm'']\<rparr>)"
proof -
  let ?s = "accepted (idle_arm False (Num 0) (Num 0))"
  let ?g = "(example_goal [])\<lparr>g_trajectory := \<lparr>traj_joint_names = [''j1''], traj_points = []\<rparr>\<rparr>"
  have i: "initialized ?s" by (simp add: example_defs)
  have p: "traj_points (g_trajectory ?g) = []" by simp
  have c: "ctrl_name ?s = ''arm''" and m: "manager_calls ?s = []"
    by (simp_all add: example_defs)
  from empty_trajectory_stops [OF i p, of "example_env True" "[]"] i p show ?thesis
    by (simp add: c m)
qed

text \<open>Claim C10. When the handler aborts before it installs a sampler, because the
  controller is not initialized, the number of joint names of the goal is not the
  number of joints, the trajectory cannot be converted, or the splice fails, then it
  returns after one abort call and the sampler, the last sample, the tolerance
  arrays, the path tolerance flag and the goal time tolerance are as before.\<close>

theorem abort_before_install_keeps_state:
  assumes "\<not> initialized s \<or>
     (traj_points (g_trajectory goal) \<noteq> [] \<and>
        (length (traj_joint_names (g_trajectory goal)) \<noteq> length (joints s) \<or>
         trajectoryFromMsg e (g_trajectory goal) (joint_names s) = None \<or>
         (\<exists>nt. trajectoryFromMsg e (g_trajectory goal) (joint_names s) = Some nt \<and>
               executable_trajectory e goal nt s = SpliceFailed)))"
  shows "\<exists>s' ec msg.
           executeCb_intake e goal s = Returned s' \<and> executeCb e sched goal s = Some s' \<and>
           calls (server s') = calls (server s) @ [(Aborted, ec, msg)] \<and>
           sampler s' = sampler s \<and> last_sample s' = last_sample s \<and>
           has_path_tolerance s' = has_path_tolerance s \<and>
           path_tolerance s' = path_tolerance s \<and> goal_tolerance s' = goal_tolerance s \<and>
           goal_time_tolerance s' = goal_time_tolerance s"
proof -
  have "\<exists>ec msg errs. executeCb_intake e goal s =
          Returned (s\<lparr>server := terminal_call (Aborted, ec, msg) (server s),
                      ros_errors := ros_errors s @ errs\<rparr>)"
  proof (cases "initialized s")
    case False
    then have "executeCb_intake e goal s =
          Returned (s\<lparr>server := terminal_call (Aborted, SUCCESSFUL, ''Controller is not initialized.'') (server s),
                      ros_errors := ros_errors s @ []\<rparr>)"
      by (simp add: executeCb_intake_def setAborted_def)
    then show ?thesis by blast
  next
    case True
    with assms have ne: "traj_points (g_trajectory goal) \<noteq> []"
      and c: "length (traj_joint_names (g_trajectory goal)) \<noteq> length (joints s) \<or>
         trajectoryFromMsg e (g_trajectory goal) (joint_names s) = None \<or>
         (\<exists>nt. trajectoryFromMsg e (g_trajectory goal) (joint_names s) = Some nt \<and>
               executable_trajectory e goal nt s = SpliceFailed)"
      by blast+
    show ?thesis
    proof (cases "length (traj_joint_names (g_trajectory goal)) \<noteq> length (joints s)")
      case True
      with \<open>initialized s\<close> ne have "executeCb_intake e goal s =
          Returned (s\<lparr>server := terminal_call (Aborted, INVALID_JOINTS,
                         ''Trajectory goal size does not match controlled joints size.'') (server s),
                      ros_errors := ros_errors s @ [''Trajectory goal size does not match controlled joints size.'']\<rparr>)"
        by (simp add: executeCb_intake_def abort_and_log)
      then show ?thesis by blast
    next
      case sz: False
      show ?thesis
      proof (cases "trajectoryFromMsg e (g_trajectory goal) (joint_names s)")
        case None
        with \<open>initialized s\<close> ne sz have "executeCb_intake e goal s =
          Returned (s\<lparr>server := terminal_call (Aborted, INVALID_JOINTS,
                         ''Trajectory goal does not match controlled joints'') (server s),
                      ros_errors := ros_errors s @ [''Trajectory goal does not match controlled joints'']\<rparr>)"
          by (simp add: executeCb_intake_def abort_and_log)
        then show ?thesis by blast
      next
        case (Some nt)
        with c sz have "executable_trajectory e goal nt s = SpliceFailed" by simp
        with \<open>initialized s\<close> ne sz Some have "executeCb_intake e goal s =
          Returned (s\<lparr>server := terminal_call (Aborted, INVALID_JOINTS,
                         ''Unable to splice trajectory'') (server s),
                      ros_errors := ros_errors s @ [''Unable to splice trajectory'']\<rparr>)"
          by (simp add: executeCb_intake_def abort_and_log)
        then show ?thesis by blast
      qed
    qed
  qed
  then obtain ec msg errs where r: "executeCb_intake e goal s =
          Returned (s\<lparr>server := terminal_call (Aborted, ec, msg) (server s),
                      ros_errors := ros_errors s @ errs\<rparr>)"
    by blast
  let ?s' = "s\<lparr>server := terminal_call (Aborted, ec, msg) (server s),
                      ros_errors := ros_errors s @ errs\<rparr>"
  have "executeCb e sched goal s = Some ?s'"
    using r by (rule executeCb_Returned)
  moreover have "calls (server ?s') = calls (server s) @ [(Aborted, ec, msg)]"
    by (simp add: terminal_call_def)
  moreover note r
  ultimately show ?thesis by (intro exI [of _ ?s'] exI [of _ ec] exI [of _ msg]) simp
qed

theorem abort_before_install_keeps_state_witness:
  "(traj_points (g_trajectory example_goal2) \<noteq> [] \<and>
    length (traj_joint_names (g_trajectory example_goal2)) \<noteq>
      length (joints (accepted (idle_arm False (Num 0) (Num 0))))) \<and>
   (\<exists>s' ec msg.
      executeCb_intake (example_env True) example_goal2 (accepted (idle_arm False (Num 0) (Num 0))) = Returned s' \<and>
      executeCb (example_env True) [] example_goal2 (accepted (idle_arm False (Num 0) (Num 0))) = Some s' \<and>
      calls (server s') = calls (server (accepted (idle_arm False (Num 0) (Num 0)))) @ [(Aborted, ec, msg)] \<and>
      sampler s' = sampler (accepted (idle_arm False (Num 0) (Num 0))) \<and>
      last_sample s' = last_sample (accepted (idle_arm False (Num 0) (Num 0))) \<and>
      has_path_tolerance s' = has_path_tolerance (accepted (idle_arm False (Num 0) (Num 0))) \<and>
      path_tolerance s' = path_tolerance (accepted (idle_arm False (Num 0) (Num 0))) \<and>
      goal_tolerance s' = goal_tolerance (accepted (idle_arm False (Num 0) (Num 0))) \<and>
      goal_time_tolerance s' = goal_time_tolerance (accepted (idle_arm False (Num 0) (Num 0))))"
proof -
  let ?s = "accepted (idle_arm False (Num 0) (Num 0))"
  have ne: "traj_points (g_trajectory example_goal2) \<noteq> []"
    and l: "length (traj_joint_names (g_trajectory example_goal2)) \<noteq> length (joints ?s)"
    by (simp_all add: example_defs)
  from ne l have h: "\<not> initialized ?s \<or>
     (traj_points (g_trajectory example_goal2) \<noteq> [] \<and>
        (length (traj_joint_names (g_trajectory example_goal2)) \<noteq> length (joints ?s) \<or>
         trajectoryFromMsg (example_env True) (g_trajectory example_goal2) (joint_names ?s) = None \<or>
         (\<exists>nt. trajectoryFromMsg (example_env True) (g_trajectory example_goal2) (joint_names ?s) = Some nt \<and>
               executable_trajectory (example_env True) example_goal2 nt ?s = SpliceFailed)))"
    by blast
  from abort_before_install_keeps_state [OF h, of "[]"] ne l show ?thesis by blast
qed

text \<open>Claim C5. For an initialized controller that is not preempted and a goal with the
  right number of joint names whose trajectory has exactly one point, converted to the
  point \<open>p\<close>, the part of the handler before the wait loop ends with a sampler on
  exactly two points: the current state, with the present positions, the present
  velocities when \<open>p\<close> has velocities, zero accelerations when \<open>p\<close> has
  accelerations, and the wall-clock time; then \<open>p\<close>.\<close>

theorem single_point_goal:
  assumes "initialized s" and "\<not> preempted s"
    and "length (traj_points (g_trajectory goal)) = 1"
    and "length (traj_joint_names (g_trajectory goal)) = length (joints s)"
    and "trajectoryFromMsg e (g_trajectory goal) (joint_names s) = Some [p]"
  shows "\<exists>s'. final (executeCb_intake e goal s) = Some s' \<and>
           sampler s' =
             Some [\<lparr>q = map getPosition (joints s),
                    qd = (if qd p \<noteq> [] then map getVelocity (joints s) else []),
                    qdd = (if qdd p \<noteq> [] then replicate (length (joints s)) (Num 0) else []),
                    time = time_now e\<rparr>, p]"
proof -
  let ?cur = "\<lparr>q = map getPosition (joints s),
                    qd = (if qd p \<noteq> [] then map getVelocity (joints s) else []),
                    qdd = (if qdd p \<noteq> [] then replicate (length (joints s)) (Num 0) else []),
                    time = time_now e\<rparr>"
  from assms(3) have ne: "traj_points (g_trajectory goal) \<noteq> []" by auto
  have ex: "executable_trajectory e goal [p] s = Executable [?cur, p]"
    using assms(2) by (simp add: executable_trajectory_def getPointFromCurrent_def Let_def point_loops)
  have "executeCb_intake e goal s = tolerances_and_start e goal (s\<lparr>sampler := Some [?cur, p]\<rparr>)"
    using assms(1,4,5) ne by (simp add: executeCb_intake_def ex)
  with tolerances_and_start_sampler [of e goal "s\<lparr>sampler := Some [?cur, p]\<rparr>"]
  show ?thesis by simp
qed

theorem single_point_goal_witness:
  "initialized (accepted (idle_arm False (Num 2) (Num 0))) \<and> \<not> preempted (accepted (idle_arm False (Num 2) (Num 0))) \<and>
   length (traj_points (g_trajectory (example_goal []))) = 1 \<and>
   length (traj_joint_names (g_trajectory (example_goal []))) =
     length (joints (accepted (idle_arm False (Num 2) (Num 0)))) \<and>
   trajectoryFromMsg (example_env True) (g_trajectory (example_goal []))
       (joint_names (accepted (idle_arm False (Num 2) (Num 0)))) =
     Some [\<lparr>q = [Num 1], qd = [], qdd = [], time = Num 11\<rparr>] \<and>
   (\<exists>s'. final (executeCb_intake (example_env True) (example_goal [])
                  (accepted (idle_arm False (Num 2) (Num 0)))) = Some s' \<and>
         sampler s' = Some [\<lparr>q = [Num 2], qd = [], qdd = [], time = Num 10\<rparr>,
                            \<lparr>q = [Num 1], qd = [], qdd = [], time = Num 11\<rparr>])"
proof -
  let ?s = "accepted (idle_arm False (Num 2) (Num 0))"
  have i: "initialized ?s" and n: "\<not> preempted ?s"
    and l: "length (traj_points (g_trajectory (example_goal []))) = 1"
    and j: "length (traj_joint_names (g_trajectory (example_goal []))) = length (joints ?s)"
    and t: "trajectoryFromMsg (example_env True) (g_trajectory (example_goal [])) (joint_names ?s) =
              Some [\<lparr>q = [Num 1], qd = [], qdd = [], time = Num 11\<rparr>]"
    by (simp_all add: example_defs)
  have js: "joints ?s = [joint1 (Num 2) (Num 0)]" and tn: "time_now (example_env True) = Num 10"
    by (simp_all add: example_defs)
  have c: "\<exists>s'. final (executeCb_intake (example_env True) (example_goal []) ?s) = Some s' \<and>
         sampler s' = Some [\<lparr>q = [Num 2], qd = [], qdd = [], time = Num 10\<rparr>,
                            \<lparr>q = [Num 1], qd = [], qdd = [], time = Num 11\<rparr>]"
    using single_point_goal [OF i n l j t] by (simp add: js tn joint1_def)
  from i n l j t c show ?thesis by (simp only: simp_thms)
qed

text \<open>Claim C4. When the handler has made its start request and the manager refuses
  it, the handler returns before the wait loop, whatever the schedule: its last
  terminal call is setAborted with GOAL\_TOLERANCE\_VIOLATED and the text
  ``Cannot execute trajectory, unable to start controller.'', which is the reported
  outcome when the goal was still active; no feedback is published and the preempted
  flag is untouched.\<close>

theorem start_refused:
  assumes "final (executeCb_intake e goal s) = Some s'"
    and "manager_calls s' = manager_calls s @ [requestStart (ctrl_name s)]"
    and "\<not> start_granted e (ctrl_name s)"
  shows "executeCb_intake e goal s = Returned s' \<and> executeCb e sched goal s = Some s' \<and>
         calls (server s') = calls (server s) @
            [(Aborted, GOAL_TOLERANCE_VIOLATED,
              ''Cannot execute trajectory, unable to start controller.'')] \<and>
         reported (server s') =
            (if isActive (server s) then reported (server s) @
               [(Aborted, GOAL_TOLERANCE_VIOLATED,
                 ''Cannot execute trajectory, unable to start controller.'')]
             else reported (server s)) \<and>
         published (server s') = published (server s) \<and> preempted s' = preempted s"
proof -
  have "\<exists>t. executeCb_intake e goal s = tolerances_and_start e goal (s\<lparr>sampler := Some t\<rparr>)"
    using executeCb_intake_shape [of e goal s] assms(1,2) by auto
  then obtain t where r: "executeCb_intake e goal s = tolerances_and_start e goal (s\<lparr>sampler := Some t\<rparr>)"
    by blast
  let ?s1 = "s\<lparr>sampler := Some t\<rparr>"
  have f: "final (tolerances_and_start e goal ?s1) = Some s'"
    using assms(1) by (simp add: r)
  have m: "manager_calls s' = manager_calls ?s1 @ [requestStart (ctrl_name ?s1)]"
    using assms(2) by simp
  have g: "\<not> start_granted e (ctrl_name ?s1)"
    using assms(3) by simp
  from f m g have "tolerances_and_start e goal ?s1 = Returned s' \<and>
         server s' = terminal_call (Aborted, GOAL_TOLERANCE_VIOLATED,
            ''Cannot execute trajectory, unable to start controller.'') (server ?s1)"
    by (rule tolerances_and_start_refused)
  then have ret: "executeCb_intake e goal s = Returned s'"
    and srv: "server s' = terminal_call (Aborted, GOAL_TOLERANCE_VIOLATED,
            ''Cannot execute trajectory, unable to start controller.'') (server s)"
    by (simp_all add: r)
  have pre: "preempted s' = preempted s"
    using tolerances_and_start_shape [of e goal ?s1] f m g
    by (elim disjE exE) (auto simp add: abort_and_log)
  from ret have "executeCb e sched goal s = Some s'" by (rule executeCb_Returned)
  with ret srv pre show ?thesis by (simp add: terminal_call_def)
qed

theorem start_refused_witness:
  "final (executeCb_intake (example_env False) (example_goal []) (accepted (idle_arm False (Num 0) (Num 0)))) =
     Some refused_arm \<and>
   manager_calls refused_arm =
     manager_calls (accepted (idle_arm False (Num 0) (Num 0))) @
       [requestStart (ctrl_name (accepted (idle_arm False (Num 0) (Num 0))))] \<and>
   \<not> start_granted (example_env False) (ctrl_name (accepted (idle_arm False (Num 0) (Num 0)))) \<and>
   executeCb (example_env False) [] (example_goal []) (accepted (idle_arm False (Num 0) (Num 0))) =
     Some refused_arm \<and>
   reported (server refused_arm) =
     [(Aborted, GOAL_TOLERANCE_VIOLATED,
       ''Cannot execute trajectory, unable to start controller.'')]"
proof -
  let ?s = "accepted (idle_arm False (Num 0) (Num 0))"
  have f: "final (executeCb_intake (example_env False) (example_goal []) ?s) = Some refused_arm"
    by (simp add: refused_run)
  have m: "manager_calls refused_arm = manager_calls ?s @ [requestStart (ctrl_name ?s)]"
    by (simp add: example_defs)
  have g: "\<not> start_granted (example_env False) (ctrl_name ?s)"
    by (simp add: example_defs)
  have a: "isActive (server ?s)" and r: "reported (server ?s) = []"
    by (simp_all add: example_defs)
  from start_refused [OF f m g, of "[]"] f m g a r show ?thesis by simp
qed

text \<open>Claim C2 fails on the code. For the one-joint arm and a goal whose path tolerance
  array has the single entry of that joint, the handler sets the flag but leaves the
  path tolerance arrays as they were: the matching entry is never copied. For the
  arm of two joints and a goal with one entry for each joint, in the order of the
  joints, the handler aborts with INVALID\_JOINTS, although every joint has its
  entry.\<close>

theorem tolerance_entries_not_copied:
  "(case final (executeCb_intake (example_env True) (example_goal [example_tolerance ''j1''])
                 (accepted (idle_arm False (Num 0) (Num 0)))) of
      None \<Rightarrow> False
    | Some s' \<Rightarrow> has_path_tolerance s' \<and> calls (server s') = [] \<and>
        path_tolerance s' = \<lparr>q = [Num 0], qd = [Num 0], qdd = [Num 0], time = Num 0\<rparr>) \<and>
   (case executeCb (example_env True) [] example_goal2 two_joint_arm of
      None \<Rightarrow> False
    | Some s' \<Rightarrow>
        calls (server s') = [(Aborted, INVALID_JOINTS, ''Unable to convert path tolerances'')] \<and>
        path_tolerance s' = \<lparr>q = [Num 0, Num 0], qd = [Num 0, Num 0], qdd = [Num 0, Num 0], time = Num 0\<rparr>)"
  by (simp add: example_defs intake_defs init_defs)

subsection \<open>The path tolerance flag and init\<close>

text \<open>Claim C8 fails on the code. \<^verbatim>\<open>init\<close> returns true and leaves
  \<^verbatim>\<open>has_path_tolerance_\<close> as it found it: true on an object in which it was true
  before, and true when the arm is initialized again after a goal with a path
  tolerance array of the size of the joints.\<close>

theorem has_path_tolerance_survives_init:
  "init example_nh (Some example_manager) (constructed True) = Some (True, idle_arm True (Num 0) (Num 0)) \<and>
   has_path_tolerance (idle_arm True (Num 0) (Num 0)) \<and>
   (case executeCb (example_env False) [] (example_goal [example_tolerance ''j1''])
           (accepted (idle_arm False (Num 0) (Num 0))) of
      None \<Rightarrow> False
    | Some s2 \<Rightarrow>
        (case init example_nh (Some example_manager) s2 of
           None \<Rightarrow> False
         | Some (ok, s3) \<Rightarrow> ok \<and> has_path_tolerance s3 \<and> sampler s3 = None))"
  by (simp add: example_defs intake_defs init_defs)

subsection \<open>What every reachable controller satisfies\<close>


















lemma readings_length:
  "length (map f (zip js rs) @ drop (length rs) js) = length js"
  by simp


subsection \<open>One outcome for a goal\<close>








lemma one_outcome_passive:
  "reported b = reported a \<Longrightarrow> isActive b = isActive a \<Longrightarrow> one_outcome a b"
  by (simp add: one_outcome_def)













subsection \<open>The example arm is a state of a run\<close>




subsection \<open>The goal check\<close>









end
